theory Spec2Isabelle
  imports Complex_Main "HOL-Library.AList"
begin

section \<open>Python values, dictionaries and exceptions\<close>

text \<open>
  The scalars stored in the metadata dictionaries of the services. A dictionary with
  string keys is an association list in insertion order: \<open>map_of\<close> reads a key and
  \<open>AList.update\<close> writes one (an existing key keeps its place, a new key goes last).
\<close>

datatype pyval = PNone | PStr string | PInt int | PBool bool | PFloat real

type_synonym pydict = "(string \<times> pyval) list"

text \<open>
  The exceptions that the modelled code can see. \<open>ExternalError\<close> stands for any
  exception raised inside a library or remote service (OpenAI, Pinecone, PyPDF2, the file
  system); every exception carries the text that \<open>str(e)\<close> gives.
\<close>

datatype error =
    TypeError string
  | KeyError string
  | AttributeError string
  | UnboundLocalError string
  | ValueError string
  | TimeoutError string
  | ExternalError string

fun str :: "error \<Rightarrow> string" where
  "str (TypeError m) = m"
| "str (KeyError m) = m"
| "str (AttributeError m) = m"
| "str (UnboundLocalError m) = m"
| "str (ValueError m) = m"
| "str (TimeoutError m) = m"
| "str (ExternalError m) = m"

text \<open>\<open>{**d, k1: v1, ...}\<close>: the entries of \<open>d\<close>, then each new key written in order.\<close>

definition dict_extend :: "pydict \<Rightarrow> (string \<times> pyval) list \<Rightarrow> pydict" where
  "dict_extend d kvs = fold (\<lambda>(k, v) acc. AList.update k v acc) kvs d"

text \<open>\<open>d.get(k, "")\<close> of the result formatting.\<close>

definition dict_get :: "pydict \<Rightarrow> string \<Rightarrow> pyval \<Rightarrow> pyval" where
  "dict_get d k dflt = (case map_of d k of None \<Rightarrow> dflt | Some v \<Rightarrow> v)"

section \<open>Slicing\<close>

text \<open>
  Python's \<open>s[i:j]\<close>: a negative bound counts from the end, and both bounds are then
  clamped into \<open>0..len(s)\<close>; the slice is empty when the bounds cross.
\<close>

definition slice_index :: "int \<Rightarrow> int \<Rightarrow> int" where
  "slice_index n i = (if i < 0 then max 0 (n + i) else min i n)"

definition py_slice :: "'a list \<Rightarrow> int \<Rightarrow> int \<Rightarrow> 'a list" where
  "py_slice xs i j =
     (let n = int (length xs); a = slice_index n i; b = slice_index n j
      in take (nat (b - a)) (drop (nat a) xs))"

section \<open>DocumentService.create_chunks\<close>

text \<open>
  A chunk is the dictionary \<open>{"chunk_id", "content", "metadata"}\<close>; subscripting it
  with any other key raises \<open>KeyError\<close>.
\<close>

record chunk =
  chunk_id :: string
  chunk_content :: string
  chunk_metadata :: pydict

datatype chunk_item = ItemStr string | ItemDict pydict

definition chunk_getitem :: "chunk \<Rightarrow> string \<Rightarrow> error + chunk_item" where
  "chunk_getitem c k =
     (if k = ''chunk_id'' then Inr (ItemStr (chunk_id c))
      else if k = ''content'' then Inr (ItemStr (chunk_content c))
      else if k = ''metadata'' then Inr (ItemDict (chunk_metadata c))
      else Inl (KeyError k))"

text \<open>
  The body of the \<open>while\<close> loop of \<open>create_chunks\<close> for the current \<open>start\<close>: \<open>end\<close> is
  computed from the old \<open>start\<close>, then \<open>start\<close> is stepped back by the overlap when it is
  positive, and the chunk is cut from the stepped-back \<open>start\<close> to \<open>end\<close>. A text is the
  list of its characters.
  \<open>uuid4 k\<close> is the identifier returned by the \<open>k\<close>-th call of \<open>uuid.uuid4()\<close>.
\<close>

definition chunk_start_of :: "int \<Rightarrow> int \<Rightarrow> int" where
  "chunk_start_of chunk_overlap start = (if start > 0 then start - chunk_overlap else start)"

definition make_chunk :: "int \<Rightarrow> int \<Rightarrow> string \<Rightarrow> string \<Rightarrow> pydict \<Rightarrow> int \<Rightarrow> nat \<Rightarrow> chunk" where
  "make_chunk chunk_size chunk_overlap uuid text md start chunk_index =
     (let end' = start + chunk_size;
          start' = chunk_start_of chunk_overlap start
      in \<lparr> chunk_id = uuid,
           chunk_content = py_slice text start' end',
           chunk_metadata = dict_extend md
             [(''chunk_index'', PInt (int chunk_index)),
              (''is_first_chunk'', PBool (chunk_index = 0)),
              (''chunk_start'', PInt start'),
              (''chunk_end'', PInt end')] \<rparr>)"

text \<open>
  The loop itself. The next \<open>start\<close> is \<open>end\<close>, that is the old \<open>start\<close> plus
  \<open>chunk_size\<close>; with \<open>chunk_size \<le> 0\<close> the loop of the source never ends on a
  non-empty text, which is the value \<open>None\<close> here.
\<close>

partial_function (option) chunk_loop ::
  "int \<Rightarrow> int \<Rightarrow> (nat \<Rightarrow> string) \<Rightarrow> nat \<Rightarrow> string \<Rightarrow> pydict \<Rightarrow> int \<Rightarrow> nat \<Rightarrow> chunk list
     \<Rightarrow> chunk list option" where
  "chunk_loop chunk_size chunk_overlap uuid4 draws text md start chunk_index chunks =
     (if start < int (length text)
      then chunk_loop chunk_size chunk_overlap uuid4 draws text md
             (start + chunk_size) (chunk_index + 1)
             (chunks @ [make_chunk chunk_size chunk_overlap (uuid4 (draws + chunk_index))
                          text md start chunk_index])
      else Some chunks)"

declare chunk_loop.simps [code]

text \<open>
  \<open>create_chunks\<close>: the loop from \<open>start = 0\<close>, \<open>chunk_index = 0\<close> and no chunks. The
  \<open>except\<close> clause logs and re-raises; nothing in the body raises on a string and a
  dictionary, so a run that returns, returns \<open>Inr\<close>.
\<close>

definition create_chunks ::
  "int \<Rightarrow> int \<Rightarrow> (nat \<Rightarrow> string) \<Rightarrow> nat \<Rightarrow> string \<Rightarrow> pydict \<Rightarrow> (error + chunk list) option" where
  "create_chunks chunk_size chunk_overlap uuid4 draws text md =
     map_option Inr (chunk_loop chunk_size chunk_overlap uuid4 draws text md 0 0 [])"

section \<open>DocumentService: loading the documents\<close>

text \<open>\<open>s.endswith(suffix)\<close>, and \<open>os.path.join\<close> of a directory and one name.\<close>

definition endswith :: "string \<Rightarrow> string \<Rightarrow> bool" where
  "endswith s suf = (length suf \<le> length s \<and> drop (length s - length suf) s = suf)"

definition path_join :: "string \<Rightarrow> string \<Rightarrow> string" where
  "path_join a b =
     (if take 1 b = ''/'' then b
      else if a = [] \<or> endswith a ''/'' then a @ b
      else a @ ''/'' @ b)"

record document =
  document_content :: string
  document_metadata :: pydict

text \<open>
  \<open>next((m for m in metadata if m['filename'] == filename), None)\<close>: the first catalog
  entry whose \<open>filename\<close> is the name; an entry without that key met before a match
  raises \<open>KeyError\<close>.
\<close>

fun find_metadata :: "string \<Rightarrow> pydict list \<Rightarrow> error + pydict option" where
  "find_metadata filename [] = Inr None"
| "find_metadata filename (m # ms) =
     (case map_of m ''filename'' of
        None \<Rightarrow> Inl (KeyError ''filename'')
      | Some v \<Rightarrow> if v = PStr filename then Inr (Some m) else find_metadata filename ms)"

text \<open>
  \<open>process_single_document\<close>. \<open>load_pdf_content\<close> is the PDF reader (it logs and
  re-raises what PyPDF2 raises). Every exception of the body is caught, logged and turned
  into \<open>None\<close>.
\<close>

definition process_single_document ::
  "(string \<Rightarrow> error + string) \<Rightarrow> string \<Rightarrow> string \<Rightarrow> pydict list \<Rightarrow> document option" where
  "process_single_document load_pdf_content pdf_dir filename metadata =
     (if \<not> endswith filename ''.pdf'' then None
      else let pdf_path = path_join pdf_dir filename in
        case find_metadata filename metadata of
          Inl e \<Rightarrow> None
        | Inr None \<Rightarrow> None
        | Inr (Some doc_metadata) \<Rightarrow>
            if doc_metadata = [] then None
            else (case load_pdf_content pdf_path of
                    Inl e \<Rightarrow> None
                  | Inr content \<Rightarrow>
                      Some \<lparr> document_content = content, document_metadata = doc_metadata \<rparr>))"

text \<open>
  \<open>process_documents_parallel\<close>. \<open>load_metadata\<close> is the outcome of reading the
  catalog file and \<open>listdir\<close> that of listing the directory; a failure of either, or a
  thread pool of no workers, is logged and re-raised. \<open>executor.map\<close> gives the results in
  the order of the names, and the \<open>None\<close> results are filtered out.
\<close>

definition process_documents_parallel ::
  "(error + pydict list) \<Rightarrow> (error + string list) \<Rightarrow> (string \<Rightarrow> error + string) \<Rightarrow> string
     \<Rightarrow> int \<Rightarrow> error + document list" where
  "process_documents_parallel load_metadata listdir load_pdf_content pdf_dir max_workers =
     (case load_metadata of
        Inl e \<Rightarrow> Inl e
      | Inr metadata \<Rightarrow>
          (case listdir of
             Inl e \<Rightarrow> Inl e
           | Inr names \<Rightarrow>
               let filenames = filter (\<lambda>f. endswith f ''.pdf'') names in
               if max_workers \<le> 0
               then Inl (ValueError ''max_workers must be greater than 0'')
               else Inr (List.map_filter
                           (\<lambda>f. process_single_document load_pdf_content pdf_dir f metadata)
                           filenames)))"

section \<open>BootstrapService\<close>

record vector =
  vec_id :: string
  vec_values :: "real list"
  vec_metadata :: pydict

text \<open>
  The Pinecone index as the service uses it: \<open>fetch\<close> gives the \<open>vectors\<close> dictionary of
  the response to a list of ids, \<open>upsert\<close> writes a list of vectors; either may raise.
\<close>

record index =
  fetch :: "string list \<Rightarrow> error + (string \<times> vector) list"
  upsert :: "vector list \<Rightarrow> error + unit"

text \<open>
  \<open>check_embedding_status(self, chunk_id, index)\<close>: the truth value of the fetched
  dictionary; any exception is logged and answered \<open>False\<close>.
\<close>

definition check_embedding_status :: "string \<Rightarrow> index \<Rightarrow> error + bool" where
  "check_embedding_status chunk_id' index =
     (case fetch index [chunk_id'] of
        Inl e \<Rightarrow> Inr False
      | Inr vectors \<Rightarrow> Inr (vectors \<noteq> []))"

text \<open>
  A call of that method binds the positional arguments written after \<open>self\<close> to
  \<open>chunk_id\<close> and \<open>index\<close>: \<open>args\<close> is what the call site gives after the chunk id.
  A call with another number of arguments raises \<open>TypeError\<close> before the body runs, so
  outside the \<open>try\<close> of the body.
\<close>

fun call_check_embedding_status :: "string \<Rightarrow> index list \<Rightarrow> error + bool" where
  "call_check_embedding_status chunk_id' [index] = check_embedding_status chunk_id' index"
| "call_check_embedding_status chunk_id' [] =
     Inl (TypeError ''check_embedding_status() missing 1 required positional argument: index'')"
| "call_check_embedding_status chunk_id' args =
     Inl (TypeError ''check_embedding_status() takes 3 positional arguments but more were given'')"

text \<open>
  The first inner loop of \<open>process_chunks_to_vectors\<close>, over one batch. The call is
  written with the chunk id alone, and the text of a new chunk is read under the key
  \<open>context\<close>. Nothing here is inside a \<open>try\<close>.
\<close>

fun check_batch ::
  "chunk list \<Rightarrow> chunk list \<times> chunk_item list \<Rightarrow> error + chunk list \<times> chunk_item list" where
  "check_batch [] acc = Inr acc"
| "check_batch (chunk # batch) (new_chunks, new_chunks_texts) =
     (case call_check_embedding_status (chunk_id chunk) [] of
        Inl e \<Rightarrow> Inl e
      | Inr exists \<Rightarrow>
          if \<not> exists then
            (case chunk_getitem chunk ''context'' of
               Inl e \<Rightarrow> Inl e
             | Inr text \<Rightarrow> check_batch batch (new_chunks @ [chunk], new_chunks_texts @ [text]))
          else check_batch batch (new_chunks, new_chunks_texts))"

text \<open>
  The \<open>for chunk, embedding in zip(new_chunks, embeddings)\<close> loop: each iteration only
  assigns the local variable \<open>vector\<close>. \<open>processed_at chunk\<close> is what \<open>time.time()\<close>
  reads when the vector of that chunk is built.
\<close>

definition make_vector :: "(chunk \<Rightarrow> real) \<Rightarrow> chunk \<Rightarrow> real list \<Rightarrow> vector" where
  "make_vector processed_at chunk embedding =
     \<lparr> vec_id = chunk_id chunk,
       vec_values = embedding,
       vec_metadata = dict_extend (chunk_metadata chunk)
         [(''content'', PStr (chunk_content chunk)),
          (''processed_at'', PFloat (processed_at chunk))] \<rparr>"

fun zip_loop :: "(chunk \<Rightarrow> real) \<Rightarrow> (chunk \<times> real list) list \<Rightarrow> vector option \<Rightarrow> vector option" where
  "zip_loop processed_at [] vector = vector"
| "zip_loop processed_at ((chunk, embedding) # rest) vector =
     zip_loop processed_at rest (Some (make_vector processed_at chunk embedding))"

text \<open>
  The \<open>try\<close> block of one batch, with its \<open>except Exception: ... continue\<close>. The state
  is the local variable \<open>vector\<close> (unbound until its first assignment) and the list
  \<open>vectors\<close>. \<open>vectors.append(vector)\<close> stands after the loop, at the level of the
  \<open>for\<close>. \<open>create_embeddings_batch\<close> is the batched OpenAI call (it logs and re-raises).
\<close>

definition embed_batch ::
  "(chunk_item list \<Rightarrow> error + real list list) \<Rightarrow> (chunk \<Rightarrow> real)
     \<Rightarrow> chunk list \<Rightarrow> chunk_item list \<Rightarrow> vector option \<times> vector list
     \<Rightarrow> vector option \<times> vector list" where
  "embed_batch create_embeddings_batch processed_at new_chunks new_chunks_texts st =
     (case st of (vector, vectors) \<Rightarrow>
        if new_chunks_texts \<noteq> [] then
          (case create_embeddings_batch new_chunks_texts of
             Inl e \<Rightarrow> (vector, vectors)
           | Inr embeddings \<Rightarrow>
               (case zip_loop processed_at (zip new_chunks embeddings) vector of
                  None \<Rightarrow> (None, vectors)
                | Some v \<Rightarrow> (Some v, vectors @ [v])))
        else (vector, vectors))"

text \<open>\<open>range(0, len(chunks), batch_size)\<close> with \<open>chunks[i:i + batch_size]\<close>.\<close>

function batches :: "nat \<Rightarrow> 'a list \<Rightarrow> 'a list list" where
  "batches n xs = (if n = 0 \<or> xs = [] then [] else take n xs # batches n (drop n xs))"
  by pat_completeness auto
termination
  by (relation "measure (\<lambda>(n, xs). length xs)") auto

declare batches.simps [simp del]

definition py_batches :: "int \<Rightarrow> 'a list \<Rightarrow> error + 'a list list" where
  "py_batches batch_size xs =
     (if batch_size = 0 then Inl (ValueError ''range() arg 3 must not be zero'')
      else if batch_size < 0 then Inr []
      else Inr (batches (nat batch_size) xs))"

text \<open>The outer loop of \<open>process_chunks_to_vectors\<close> over the batches.\<close>

fun batch_loop ::
  "(chunk_item list \<Rightarrow> error + real list list) \<Rightarrow> (chunk \<Rightarrow> real)
     \<Rightarrow> chunk list list \<Rightarrow> vector option \<times> vector list \<Rightarrow> error + vector list" where
  "batch_loop create_embeddings_batch processed_at [] st = Inr (snd st)"
| "batch_loop create_embeddings_batch processed_at (batch # rest) st =
     (case check_batch batch ([], []) of
        Inl e \<Rightarrow> Inl e
      | Inr (new_chunks, new_chunks_texts) \<Rightarrow>
          if new_chunks = [] then batch_loop create_embeddings_batch processed_at rest st
          else batch_loop create_embeddings_batch processed_at rest
                 (embed_batch create_embeddings_batch processed_at
                    new_chunks new_chunks_texts st))"

text \<open>
  \<open>process_chunks_to_vectors(self, chunks, index)\<close>. The parameter \<open>index\<close> is not used
  by the body.
\<close>

definition process_chunks_to_vectors ::
  "int \<Rightarrow> (chunk_item list \<Rightarrow> error + real list list) \<Rightarrow> (chunk \<Rightarrow> real)
     \<Rightarrow> chunk list \<Rightarrow> index \<Rightarrow> error + vector list" where
  "process_chunks_to_vectors batch_size create_embeddings_batch processed_at chunks index =
     (case py_batches batch_size chunks of
        Inl e \<Rightarrow> Inl e
      | Inr bs \<Rightarrow> batch_loop create_embeddings_batch processed_at bs (None, []))"

text \<open>
  \<open>upsert_vectors_batch\<close>: an empty batch is answered \<open>False\<close> without a call; a failure
  of the upsert is logged and re-raised.
\<close>

definition upsert_vectors_batch :: "index \<Rightarrow> vector list \<Rightarrow> error + bool" where
  "upsert_vectors_batch index vectors =
     (if vectors = [] then Inr False
      else (case upsert index vectors of
              Inl e \<Rightarrow> Inl e
            | Inr u \<Rightarrow> Inr True))"

text \<open>
  The upsert loop of \<open>bootstrap\<close>. Beside the counter \<open>batches_processed\<close> it returns the
  batches that were written to the index, in order; that list is not in the source.
\<close>

fun upsert_loop ::
  "index \<Rightarrow> vector list list \<Rightarrow> nat \<Rightarrow> vector list list \<Rightarrow> (error + nat) \<times> vector list list" where
  "upsert_loop index [] batches_processed written = (Inr batches_processed, written)"
| "upsert_loop index (batch # rest) batches_processed written =
     (case upsert_vectors_batch index batch of
        Inl e \<Rightarrow> (Inl e, written)
      | Inr ok \<Rightarrow>
          upsert_loop index rest (batches_processed + 1)
            (if ok then written @ [batch] else written))"

text \<open>
  \<open>bootstrap\<close>, without its pauses and its clock. \<open>initialize_or_validate_index\<close> and
  \<open>process_all\<close> are the outcomes of the two calls of those names. Every exception is
  logged and re-raised. The result is the \<open>stats\<close> dictionary, with the batches written.
\<close>

record stats =
  chunks_processed :: nat
  new_vectors_created :: nat
  batches_processed :: nat

definition bootstrap ::
  "int \<Rightarrow> (error + index) \<Rightarrow> (error + chunk list)
     \<Rightarrow> (chunk_item list \<Rightarrow> error + real list list) \<Rightarrow> (chunk \<Rightarrow> real)
     \<Rightarrow> (error + stats) \<times> vector list list" where
  "bootstrap batch_size initialize_or_validate_index process_all create_embeddings_batch
       processed_at =
     (case initialize_or_validate_index of
        Inl e \<Rightarrow> (Inl e, [])
      | Inr index \<Rightarrow>
          (case process_all of
             Inl e \<Rightarrow> (Inl e, [])
           | Inr chunks \<Rightarrow>
               (case process_chunks_to_vectors batch_size create_embeddings_batch processed_at
                       chunks index of
                  Inl e \<Rightarrow> (Inl e, [])
                | Inr vectors \<Rightarrow>
                    if vectors \<noteq> [] then
                      (case py_batches batch_size vectors of
                         Inl e \<Rightarrow> (Inl e, [])
                       | Inr bs \<Rightarrow>
                           (case upsert_loop index bs 0 [] of
                              (Inl e, written) \<Rightarrow> (Inl e, written)
                            | (Inr n, written) \<Rightarrow>
                                (Inr \<lparr> chunks_processed = length chunks,
                                       new_vectors_created = length vectors,
                                       batches_processed = n \<rparr>, written)))
                    else
                      (Inr \<lparr> chunks_processed = length chunks,
                             new_vectors_created = length vectors,
                             batches_processed = 0 \<rparr>, []))))"

section \<open>Configuration\<close>

text \<open>
  The numeric attributes of the class \<open>Config\<close>, which both \<open>DevelopmentConfig\<close> and
  \<open>ProductionConfig\<close> inherit unchanged. Reading an attribute that the class does not
  define raises \<open>AttributeError\<close>.
\<close>

definition Config :: "(string \<times> int) list" where
  "Config =
     [(''CHUNK_SIZE'', 1000), (''CHUNK_OVERLAP'', 200), (''MAX_SEARCH_RESULTS'', 5),
      (''MAX_CONCURRENT_SEARCHES'', 5), (''SEARCH_TIMEOUT'', 5), (''CACHE_SIZE'', 3),
      (''CACHE_TTL'', 60), (''MAX_WORKERS'', 3), (''BATCH_SIZE'', 3),
      (''EMBEDDING_BATCH_SIZE'', 3)]"

definition config_attr :: "(string \<times> int) list \<Rightarrow> string \<Rightarrow> error + int" where
  "config_attr cfg name =
     (case map_of cfg name of
        None \<Rightarrow> Inl (AttributeError (''type object has no attribute '' @ name))
      | Some v \<Rightarrow> Inr v)"

section \<open>The TTL cache of the search service\<close>

text \<open>
  \<open>cachetools.TTLCache(maxsize, ttl)\<close> as the service uses it: membership test, read,
  write and \<open>len\<close>. \<open>links\<close> holds key, value and expiry time, least recently used
  first. Every operation reads the cache's timer; the reading is the argument \<open>now\<close>.
  A read moves the key to the most recently used end; a write first drops the expired
  entries, then evicts from the least recently used end while the cache is full.
  Timer readings and expiry times are floats, taken here as the reals they denote; the
  expiry of an entry is the float sum of the write time and the TTL, and \<open>float_add\<close> is
  that addition with its rounding, which is left open.
\<close>

record 'v ttl_cache =
  maxsize :: int
  ttl :: real
  links :: "(string \<times> 'v \<times> real) list"

definition ttl_contains :: "'v ttl_cache \<Rightarrow> string \<Rightarrow> real \<Rightarrow> bool" where
  "ttl_contains c k now =
     (case map_of (links c) k of None \<Rightarrow> False | Some (v, expires) \<Rightarrow> now < expires)"

definition ttl_getitem :: "'v ttl_cache \<Rightarrow> string \<Rightarrow> real \<Rightarrow> (error + 'v) \<times> 'v ttl_cache" where
  "ttl_getitem c k now =
     (case map_of (links c) k of
        None \<Rightarrow> (Inl (KeyError k), c)
      | Some (v, expires) \<Rightarrow>
          let c' = c\<lparr>links := AList.delete k (links c) @ [(k, (v, expires))]\<rparr>
          in if now < expires then (Inr v, c') else (Inl (KeyError k), c'))"

definition ttl_expire :: "'v ttl_cache \<Rightarrow> real \<Rightarrow> 'v ttl_cache" where
  "ttl_expire c now = c\<lparr>links := filter (\<lambda>(k, v, expires). now < expires) (links c)\<rparr>"

definition ttl_setitem ::
  "(real \<Rightarrow> real \<Rightarrow> real) \<Rightarrow> 'v ttl_cache \<Rightarrow> string \<Rightarrow> 'v \<Rightarrow> real
     \<Rightarrow> (error + unit) \<times> 'v ttl_cache" where
  "ttl_setitem float_add c k v now =
     (let c1 = ttl_expire c now; ls = links c1 in
      if 1 > maxsize c then (Inl (ValueError ''value too large''), c1)
      else
        let kept = (if map_of ls k = None
                    then drop (nat (int (length ls) + 1 - maxsize c)) ls else ls)
        in (Inr (), c1\<lparr>links := AList.delete k kept @ [(k, (v, float_add now (ttl c)))]\<rparr>))"

definition ttl_len :: "'v ttl_cache \<Rightarrow> real \<Rightarrow> nat" where
  "ttl_len c now = length (filter (\<lambda>(k, v, expires). now < expires) (links c))"

section \<open>SearchService\<close>

record match =
  match_metadata :: pydict
  score :: real

record search_result =
  result_content :: pyval
  result_metadata :: pydict
  similarity_score :: real

record search_response =
  results :: "search_result list"
  total_results :: nat
  processing_time :: string

text \<open>
  The state of the singleton: its cache and the free slots of its semaphore. The two
  counters are not in the source: they count the calls made so far to
  \<open>openai.embeddings.create\<close> and to \<open>index.query\<close>, so that what such a call answers
  can depend on the calls before it, and so that a theorem can say that none was made.
\<close>

record search_service =
  cache :: "search_response ttl_cache"
  semaphore_value :: int
  embed_calls :: nat
  query_calls :: nat

text \<open>
  The remote services: the \<open>n\<close>-th embedding of a text (\<open>response.data[0].embedding\<close>,
  which the source types as optional), the \<open>n\<close>-th nearest-neighbour query, and the
  index statistics.
\<close>

record externals =
  openai_embed :: "nat \<Rightarrow> string \<Rightarrow> error + real list option"
  index_query :: "nat \<Rightarrow> real list option \<Rightarrow> int \<Rightarrow> error + match list"
  describe_index_stats :: "error + unit"

text \<open>\<open>create_embedding\<close>: one call of the embedding service; it logs and re-raises.\<close>

definition create_embedding ::
  "externals \<Rightarrow> string \<Rightarrow> search_service \<Rightarrow> (error + real list option) \<times> search_service" where
  "create_embedding ext query st =
     (openai_embed ext (embed_calls st) query, st\<lparr>embed_calls := embed_calls st + 1\<rparr>)"

text \<open>The decimal text of an integer, and \<open>f"{query}:{top_k}"\<close>.\<close>

fun digits :: "nat \<Rightarrow> string" where
  "digits n = (if n < 10 then [''0123456789'' ! n]
               else digits (n div 10) @ [''0123456789'' ! (n mod 10)])"

declare digits.simps [simp del]

definition str_int :: "int \<Rightarrow> string" where
  "str_int i = (if i < 0 then CHR ''-'' # digits (nat (- i)) else digits (nat i))"

definition cache_key_of :: "string \<Rightarrow> int option \<Rightarrow> string" where
  "cache_key_of query top_k =
     query @ '':'' @ (case top_k of None \<Rightarrow> ''None'' | Some k \<Rightarrow> str_int k)"

text \<open>
  \<open>top_k or self.config.DEFAULT_TOP_K\<close>: the attribute is read only when \<open>top_k\<close> is
  \<open>None\<close> or 0.
\<close>

definition top_k_or_default :: "(string \<times> int) list \<Rightarrow> int option \<Rightarrow> error + int" where
  "top_k_or_default cfg top_k =
     (case top_k of
        None \<Rightarrow> config_attr cfg ''DEFAULT_TOP_K''
      | Some k \<Rightarrow> if k \<noteq> 0 then Inr k else config_attr cfg ''DEFAULT_TOP_K'')"

definition format_match :: "match \<Rightarrow> search_result" where
  "format_match m =
     \<lparr> result_content = dict_get (match_metadata m) ''content'' (PStr []),
       result_metadata =
         [(''case'', dict_get (match_metadata m) ''case'' (PStr [])),
          (''year'', dict_get (match_metadata m) ''year'' (PStr [])),
          (''court'', dict_get (match_metadata m) ''court'' (PStr [])),
          (''citation'', dict_get (match_metadata m) ''citation'' (PStr []))],
       similarity_score = score m \<rparr>"

text \<open>
  The three readings of the cache's timer that one search can make, and
  \<open>_execute_search\<close>. \<open>elapsed\<close> is the text of \<open>f"{time.time() - start_time:.2f}s"\<close>.
  The membership test and the read of a hit are outside the \<open>try\<close>; every exception
  inside it is logged and re-raised.
\<close>

record timer_readings =
  at_contains :: real
  at_getitem :: real
  at_setitem :: real

definition execute_search ::
  "(real \<Rightarrow> real \<Rightarrow> real) \<Rightarrow> (string \<times> int) list \<Rightarrow> externals \<Rightarrow> timer_readings
     \<Rightarrow> string \<Rightarrow> string \<Rightarrow> int option
     \<Rightarrow> search_service \<Rightarrow> (error + search_response) \<times> search_service" where
  "execute_search float_add cfg ext timer elapsed query top_k st =
     (let cache_key = cache_key_of query top_k in
      if ttl_contains (cache st) cache_key (at_contains timer) then
        (case ttl_getitem (cache st) cache_key (at_getitem timer) of
           (r, c') \<Rightarrow> (r, st\<lparr>cache := c'\<rparr>))
      else
        (case create_embedding ext query st of
           (Inl e, st1) \<Rightarrow> (Inl e, st1)
         | (Inr embedding, st1) \<Rightarrow>
             (case top_k_or_default cfg top_k of
                Inl e \<Rightarrow> (Inl e, st1)
              | Inr k \<Rightarrow>
                  let st2 = st1\<lparr>query_calls := query_calls st1 + 1\<rparr> in
                  (case index_query ext (query_calls st1) embedding k of
                     Inl e \<Rightarrow> (Inl e, st2)
                   | Inr matches \<Rightarrow>
                       let formatted_results = map format_match matches;
                           response = \<lparr> results = formatted_results,
                                        total_results = length formatted_results,
                                        processing_time = elapsed \<rparr>
                       in (case ttl_setitem float_add (cache st2) cache_key response
                                (at_setitem timer) of
                             (Inl e, c') \<Rightarrow> (Inl e, st2\<lparr>cache := c'\<rparr>)
                           | (Inr u, c') \<Rightarrow> (Inr response, st2\<lparr>cache := c'\<rparr>))))))"

text \<open>
  \<open>health_check\<close>: a test embedding, the guard on an empty one, the index statistics;
  \<open>now\<close> is the timer reading of \<open>len(self.cache)\<close>. Every exception is caught and
  answered with its text.
\<close>

definition health_check ::
  "externals \<Rightarrow> real \<Rightarrow> search_service \<Rightarrow> (error + pydict) \<times> search_service" where
  "health_check ext now st =
     (case create_embedding ext ''test'' st of
        (Inl e, st1) \<Rightarrow>
          (Inr [(''status'', PStr ''unhealthy''), (''error'', PStr (str e))], st1)
      | (Inr test_embedding, st1) \<Rightarrow>
          if test_embedding = None \<or> test_embedding = Some [] then
            (Inr [(''status'', PStr ''unhealthy''),
                  (''error'', PStr ''Embedding creation failed'')], st1)
          else
            (case describe_index_stats ext of
               Inl e \<Rightarrow>
                 (Inr [(''status'', PStr ''unhealthy''), (''error'', PStr (str e))], st1)
             | Inr stats \<Rightarrow>
                 (Inr [(''status'', PStr ''healthy''),
                       (''cache_size'', PInt (int (ttl_len (cache st1) now))),
                       (''active_connections'', PInt (semaphore_value st1))], st1)))"

section \<open>The route \<open>POST /search/\<close>\<close>

text \<open>
  The methods that the class \<open>SearchService\<close> defines, and the lookup of an attribute
  of one of its instances by a method name.
\<close>

datatype bound_method =
    Initialize_connections
  | Create_embedding
  | Search_with_timeout
  | Execute_search
  | Health_check

definition SearchService_getattr :: "string \<Rightarrow> error + bound_method" where
  "SearchService_getattr name =
     (case map_of
        [(''initialize_connections'', Initialize_connections),
         (''create_embedding'', Create_embedding),
         (''search_with_timeout'', Search_with_timeout),
         (''_execute_search'', Execute_search),
         (''health_check'', Health_check)] name of
        None \<Rightarrow> Inl (AttributeError (''SearchService object has no attribute '' @ name))
      | Some m \<Rightarrow> Inr m)"

text \<open>Python's truth value of a JSON scalar.\<close>

fun truthy :: "pyval \<Rightarrow> bool" where
  "truthy PNone = False"
| "truthy (PStr s) = (s \<noteq> [])"
| "truthy (PInt i) = (i \<noteq> 0)"
| "truthy (PBool b) = b"
| "truthy (PFloat r) = (r \<noteq> 0)"

datatype 'r json = JsonError string | Json 'r

text \<open>
  The handler. \<open>request_json\<close> is \<open>request.json\<close> (or what reading it raises),
  \<open>new_service\<close> the outcome of \<open>SearchService()\<close>, and \<open>call m query\<close> a call of the
  bound method \<open>m\<close> with the one positional argument \<open>query\<close>. The answer is the JSON body
  with the status code.
\<close>

definition search_route ::
  "(error + pydict) \<Rightarrow> (error + unit) \<Rightarrow> (bound_method \<Rightarrow> pyval \<Rightarrow> 's \<Rightarrow> (error + 'r) \<times> 's) \<Rightarrow> 's
     \<Rightarrow> ('r json \<times> nat) \<times> 's" where
  "search_route request_json new_service call st =
     (case request_json of
        Inl e \<Rightarrow> ((JsonError (str e), 500), st)
      | Inr body \<Rightarrow>
          let query = dict_get body ''query'' PNone in
          if \<not> truthy query then ((JsonError ''No query provided'', 400), st)
          else
            (case new_service of
               Inl e \<Rightarrow> ((JsonError (str e), 500), st)
             | Inr u \<Rightarrow>
                 (case SearchService_getattr ''search'' of
                    Inl e \<Rightarrow> ((JsonError (str e), 500), st)
                  | Inr m \<Rightarrow>
                      (case call m query st of
                         (Inl e, st') \<Rightarrow> ((JsonError (str e), 500), st')
                       | (Inr results', st') \<Rightarrow> ((Json results', 200), st')))))"

section \<open>Concrete inputs\<close>

text \<open>Inputs on which the definitions above are run in the theorems below.\<close>

definition example_uuid4 :: "nat \<Rightarrow> string" where
  "example_uuid4 n = ''uuid-'' @ digits n"

definition example_entry_a :: pydict where
  "example_entry_a =
     [(''filename'', PStr ''a.pdf''), (''case'', PStr ''A v B''), (''year'', PInt 1999)]"

definition example_entry_b :: pydict where
  "example_entry_b =
     [(''filename'', PStr ''b.pdf''), (''case'', PStr ''C v D''), (''year'', PInt 2004)]"

definition example_entry_d :: pydict where
  "example_entry_d =
     [(''filename'', PStr ''d.pdf''), (''case'', PStr ''E v F''), (''year'', PInt 2010)]"

definition example_catalog :: "pydict list" where
  "example_catalog = [example_entry_a, example_entry_b, example_entry_d]"

definition example_names :: "string list" where
  "example_names = [''a.pdf'', ''b.pdf'', ''c.pdf'', ''d.pdf'', ''notes.txt'']"

definition example_load_pdf_content :: "string \<Rightarrow> error + string" where
  "example_load_pdf_content path =
     (if path = ''pdfs/a.pdf'' then Inr ''text of a''
      else if path = ''pdfs/b.pdf'' then Inr ''text of b''
      else if path = ''pdfs/c.pdf'' then Inr ''text of c''
      else Inl (ExternalError ''EOF marker not found''))"

definition example_document_b :: document where
  "example_document_b =
     \<lparr> document_content = ''text of b'', document_metadata = example_entry_b \<rparr>"

definition example_chunk_a :: chunk where
  "example_chunk_a =
     \<lparr> chunk_id = ''uuid-0'', chunk_content = ''ab'',
       chunk_metadata = [(''filename'', PStr ''a.pdf''), (''chunk_index'', PInt 0),
         (''is_first_chunk'', PBool True), (''chunk_start'', PInt 0), (''chunk_end'', PInt 2)] \<rparr>"

definition example_chunk_b :: chunk where
  "example_chunk_b =
     \<lparr> chunk_id = ''uuid-1'', chunk_content = ''bcd'',
       chunk_metadata = [(''filename'', PStr ''a.pdf''), (''chunk_index'', PInt 1),
         (''is_first_chunk'', PBool False), (''chunk_start'', PInt 1), (''chunk_end'', PInt 4)] \<rparr>"

fun example_embedding :: "chunk_item \<Rightarrow> real list" where
  "example_embedding (ItemStr s) = [real (length s), 1]"
| "example_embedding (ItemDict d) = [0, 0]"

definition example_create_embeddings_batch :: "chunk_item list \<Rightarrow> error + real list list" where
  "example_create_embeddings_batch texts = Inr (map example_embedding texts)"

definition example_processed_at :: "chunk \<Rightarrow> real" where
  "example_processed_at c = 1730000000"

definition example_vector_b :: vector where
  "example_vector_b =
     \<lparr> vec_id = ''uuid-1'', vec_values = [3, 1],
       vec_metadata = [(''filename'', PStr ''a.pdf''), (''chunk_index'', PInt 1),
         (''is_first_chunk'', PBool False), (''chunk_start'', PInt 1), (''chunk_end'', PInt 4),
         (''content'', PStr ''bcd''), (''processed_at'', PFloat 1730000000)] \<rparr>"

definition empty_index :: index where
  "empty_index = \<lparr> fetch = (\<lambda>ids. Inr []), upsert = (\<lambda>vectors. Inr ()) \<rparr>"

definition stored_vector :: "string \<Rightarrow> string \<times> vector" where
  "stored_vector i = (i, \<lparr> vec_id = i, vec_values = [2, 1], vec_metadata = [] \<rparr>)"

definition full_index :: index where
  "full_index = \<lparr> fetch = (\<lambda>ids. Inr (map stored_vector ids)), upsert = (\<lambda>vectors. Inr ()) \<rparr>"

definition failing_index :: index where
  "failing_index =
     \<lparr> fetch = (\<lambda>ids. Inl (ExternalError ''connection reset'')),
       upsert = (\<lambda>vectors. Inr ()) \<rparr>"

definition example_service :: search_service where
  "example_service =
     \<lparr> cache = \<lparr> maxsize = 3, ttl = 60, links = [] \<rparr>,
       semaphore_value = 5, embed_calls = 0, query_calls = 0 \<rparr>"

definition example_match :: match where
  "example_match =
     \<lparr> match_metadata = [(''content'', PStr ''the contract was breached''),
         (''case'', PStr ''A v B''), (''year'', PInt 1999)],
       score = 0.9 \<rparr>"

definition example_externals :: externals where
  "example_externals =
     \<lparr> openai_embed = (\<lambda>n q. Inr (Some [0.1, 0.2])),
       index_query = (\<lambda>n v k. Inr (take (nat k) [example_match, example_match])),
       describe_index_stats = Inr () \<rparr>"

definition empty_embedding_externals :: externals where
  "empty_embedding_externals =
     \<lparr> openai_embed = (\<lambda>n q. Inr (Some [])),
       index_query = (\<lambda>n v k. Inr []),
       describe_index_stats = Inr () \<rparr>"

definition unreachable_externals :: externals where
  "unreachable_externals =
     \<lparr> openai_embed = (\<lambda>n q. Inl (ExternalError ''connection refused'')),
       index_query = (\<lambda>n v k. Inl (ExternalError ''connection refused'')),
       describe_index_stats = Inl (ExternalError ''connection refused'') \<rparr>"

definition example_response :: search_response where
  "example_response =
     \<lparr> results =
         [\<lparr> result_content = PStr ''the contract was breached'',
            result_metadata = [(''case'', PStr ''A v B''), (''year'', PInt 1999),
              (''court'', PStr []), (''citation'', PStr [])],
            similarity_score = 0.9 \<rparr>,
          \<lparr> result_content = PStr ''the contract was breached'',
            result_metadata = [(''case'', PStr ''A v B''), (''year'', PInt 1999),
              (''court'', PStr []), (''citation'', PStr [])],
            similarity_score = 0.9 \<rparr>],
       total_results = 2,
       processing_time = ''0.41s'' \<rparr>"

definition example_service_after :: search_service where
  "example_service_after =
     \<lparr> cache = \<lparr> maxsize = 3, ttl = 60,
         links = [(''breach of contract:3'', (example_response, 71))] \<rparr>,
       semaphore_value = 5, embed_calls = 1, query_calls = 1 \<rparr>"

definition first_timer :: timer_readings where
  "first_timer = \<lparr> at_contains = 10, at_getitem = 10, at_setitem = 11 \<rparr>"

definition second_timer :: timer_readings where
  "second_timer = \<lparr> at_contains = 50, at_getitem = 50, at_setitem = 51 \<rparr>"

definition example_request :: pydict where
  "example_request = [(''query'', PStr ''breach of contract''), (''top_k'', PInt 3)]"

definition example_call :: "bound_method \<Rightarrow> pyval \<Rightarrow> nat \<Rightarrow> (error + pyval) \<times> nat" where
  "example_call m query n = (Inr query, n + 1)"

text \<open>
  The float sum at the timer readings of the examples: they are small whole numbers,
  and so is the TTL, so the float sum is the exact sum.
\<close>

definition example_float_add :: "real \<Rightarrow> real \<Rightarrow> real" where
  "example_float_add x y = x + y"

definition other_timer :: timer_readings where
  "other_timer = \<lparr> at_contains = 20, at_getitem = 20, at_setitem = 20 \<rparr>"

definition example_service_after_two :: search_service where
  "example_service_after_two =
     \<lparr> cache = \<lparr> maxsize = 3, ttl = 60,
         links = [(''breach of contract:3'', (example_response, 71)),
                  (''negligence:3'', (example_response, 80))] \<rparr>,
       semaphore_value = 5, embed_calls = 2, query_calls = 2 \<rparr>"

text \<open>
  A sequence of searches on the service, one after the other, each with one timer
  reading; it returns what each search answered and the last state.
\<close>

fun run_searches ::
  "(real \<Rightarrow> real \<Rightarrow> real) \<Rightarrow> (string \<times> int) list \<Rightarrow> externals \<Rightarrow> string
     \<Rightarrow> (real \<times> string \<times> int option) list \<Rightarrow> search_service
     \<Rightarrow> (error + search_response) list \<times> search_service" where
  "run_searches float_add cfg ext elapsed [] st = ([], st)"
| "run_searches float_add cfg ext elapsed ((t, query, top_k) # rest) st =
     (case execute_search float_add cfg ext
             \<lparr> at_contains = t, at_getitem = t, at_setitem = t \<rparr> elapsed query top_k st of
        (r, st') \<Rightarrow>
          (case run_searches float_add cfg ext elapsed rest st' of
             (rs, st'') \<Rightarrow> (r # rs, st'')))"

definition four_searches :: "(real \<times> string \<times> int option) list" where
  "four_searches =
     [(1, ''breach of contract'', Some 3), (2, ''negligence'', Some 3),
      (3, ''estoppel'', Some 3), (4, ''bailment'', Some 3)]"

definition example_service_full :: search_service where
  "example_service_full =
     \<lparr> cache = \<lparr> maxsize = 3, ttl = 60,
         links = [(''negligence:3'', (example_response, 62)),
                  (''estoppel:3'', (example_response, 63)),
                  (''bailment:3'', (example_response, 64))] \<rparr>,
       semaphore_value = 5, embed_calls = 4, query_calls = 4 \<rparr>"

definition fifth_timer :: timer_readings where
  "fifth_timer = \<lparr> at_contains = 5, at_getitem = 5, at_setitem = 5 \<rparr>"

definition example_service_evicted :: search_service where
  "example_service_evicted =
     \<lparr> cache = \<lparr> maxsize = 3, ttl = 60,
         links = [(''estoppel:3'', (example_response, 63)),
                  (''bailment:3'', (example_response, 64)),
                  (''breach of contract:3'', (example_response, 65))] \<rparr>,
       semaphore_value = 5, embed_calls = 5, query_calls = 5 \<rparr>"

section \<open>The chunk loop\<close>

lemma ceil_div_le:
  assumes "0 < (cs::int)" "L \<le> i * cs"
  shows "(L + cs - 1) div cs \<le> i"
proof -
  have "(L + cs - 1) div cs \<le> (i * cs + (cs - 1)) div cs"
    using assms by (intro zdiv_mono1) auto
  also have "\<dots> = i + (cs - 1) div cs"
    using assms by simp
  also have "(cs - 1) div cs = 0"
    using assms by (simp add: div_pos_pos_trivial)
  finally show ?thesis by simp
qed

lemma ceil_div_ge:
  assumes "0 < (cs::int)" "i * cs < L"
  shows "i + 1 \<le> (L + cs - 1) div cs"
proof -
  have "((i + 1) * cs) div cs \<le> (L + cs - 1) div cs"
    using assms by (intro zdiv_mono1) (auto simp: algebra_simps)
  then show ?thesis using assms by simp
qed

lemma chunk_loop_done:
  "\<not> start < int (length text) \<Longrightarrow>
   chunk_loop cs ov u d text md start i chunks = Some chunks"
  by (subst chunk_loop.simps) simp

lemma chunk_loop_step:
  "start < int (length text) \<Longrightarrow>
   chunk_loop cs ov u d text md start i chunks =
   chunk_loop cs ov u d text md (start + cs) (i + 1)
     (chunks @ [make_chunk cs ov (u (d + i)) text md start i])"
  by (subst chunk_loop.simps) simp

text \<open>
  With a positive \<open>chunk_size\<close> the loop returns: the iteration of index \<open>j\<close> runs with
  \<open>start = j * chunk_size\<close>, and there are as many iterations as the length of the text
  divided by \<open>chunk_size\<close>, rounded up. The overlap plays no part in this.
\<close>

lemma chunk_loop_closed:
  "0 < cs \<Longrightarrow> start = int i * cs \<Longrightarrow>
   chunk_loop cs ov u d text md start i chunks =
     Some (chunks @ map (\<lambda>j. make_chunk cs ov (u (d + j)) text md (int j * cs) j)
        [i ..< max i (nat ((int (length text) + cs - 1) div cs))])"
proof (induction "nat (int (length text) - start)" arbitrary: start i chunks rule: less_induct)
  case less
  let ?N = "nat ((int (length text) + cs - 1) div cs)"
  show ?case
  proof (cases "start < int (length text)")
    case False
    have "(int (length text) + cs - 1) div cs \<le> int i"
      using ceil_div_le [of cs "int (length text)" "int i"] less.prems False by simp
    then have "?N \<le> i" by linarith
    then have "max i ?N = i" by simp
    then show ?thesis using False by (simp add: chunk_loop_done)
  next
    case True
    have "int i + 1 \<le> (int (length text) + cs - 1) div cs"
      using ceil_div_ge [of cs "int i" "int (length text)"] less.prems True by simp
    then have N: "i + 1 \<le> ?N" by linarith
    have IH: "chunk_loop cs ov u d text md (start + cs) (i + 1)
         (chunks @ [make_chunk cs ov (u (d + i)) text md start i]) =
       Some ((chunks @ [make_chunk cs ov (u (d + i)) text md start i]) @
         map (\<lambda>j. make_chunk cs ov (u (d + j)) text md (int j * cs) j)
           [i + 1 ..< max (i + 1) ?N])"
      using less.prems True
      by (intro less.hyps) (auto simp: algebra_simps)
    have "[i ..< max i ?N] = i # [i + 1 ..< max (i + 1) ?N]"
      using N by (simp add: max_def upt_conv_Cons)
    then show ?thesis
      using True IH less.prems by (simp add: chunk_loop_step)
  qed
qed

text \<open>
  With a \<open>chunk_size\<close> that is not positive the loop never returns on a non-empty text:
  the chunk size, not the overlap, is what can make it run forever.
\<close>

lemma chunk_loop_Some_bound:
  assumes "chunk_loop cs ov u d txt md start i chunks = Some y"
  shows "cs \<le> 0 \<longrightarrow> \<not> start < int (length txt)"
  apply (rule chunk_loop.raw_induct
      [where P = "\<lambda>cs ov u d txt md start i chunks y. cs \<le> 0 \<longrightarrow> \<not> start < int (length txt)",
       OF _ assms])
  apply (fastforce split: if_splits)
  done

lemma create_chunks_diverges:
  assumes "chunk_size \<le> 0" and "txt \<noteq> []"
  shows "create_chunks chunk_size chunk_overlap uuid4 draws txt md = None"
proof -
  have "chunk_loop chunk_size chunk_overlap uuid4 draws txt md 0 0 [] = None"
  proof (cases "chunk_loop chunk_size chunk_overlap uuid4 draws txt md 0 0 []")
    case None then show ?thesis .
  next
    case (Some y)
    from chunk_loop_Some_bound [OF Some] assms show ?thesis by simp
  qed
  then show ?thesis by (simp add: create_chunks_def)
qed

text \<open>
  Claim C3, as the code has it. With \<open>chunk_size = 1000\<close> and \<open>chunk_overlap = 200\<close>,
  every text of length 2500 gives three chunks, of index 0, 1 and 2, with
  \<open>is_first_chunk\<close> true for index 0 only. Their recorded starts are 0, 800 and 1800 and
  their recorded ends 1000, 2000 and 3000: each start after the first is the end before it
  minus the overlap, and each end is the end before it plus \<open>chunk_size\<close> (recorded as
  computed, also beyond the text). The contents are \<open>text[0:1000]\<close>, \<open>text[800:2000]\<close> and
  \<open>text[1800:2500]\<close>, of 1000, 1200 and 700 characters: a chunk after the first holds up
  to \<open>chunk_size + chunk_overlap\<close> characters.
\<close>

theorem create_chunks_2500:
  assumes "length text = 2500"
  shows "create_chunks 1000 200 uuid4 draws text md =
     Some (Inr
       [\<lparr> chunk_id = uuid4 draws, chunk_content = take 1000 text,
          chunk_metadata = dict_extend md
            [(''chunk_index'', PInt 0), (''is_first_chunk'', PBool True),
             (''chunk_start'', PInt 0), (''chunk_end'', PInt 1000)] \<rparr>,
        \<lparr> chunk_id = uuid4 (draws + 1), chunk_content = take 1200 (drop 800 text),
          chunk_metadata = dict_extend md
            [(''chunk_index'', PInt 1), (''is_first_chunk'', PBool False),
             (''chunk_start'', PInt 800), (''chunk_end'', PInt 2000)] \<rparr>,
        \<lparr> chunk_id = uuid4 (draws + 2), chunk_content = drop 1800 text,
          chunk_metadata = dict_extend md
            [(''chunk_index'', PInt 2), (''is_first_chunk'', PBool False),
             (''chunk_start'', PInt 1800), (''chunk_end'', PInt 3000)] \<rparr>])
   \<and> map length [take 1000 text, take 1200 (drop 800 text), drop 1800 text] = [1000, 1200, 700]"
  using assms
  by (simp add: create_chunks_def chunk_loop_step chunk_loop_done make_chunk_def
      chunk_start_of_def py_slice_def slice_index_def)

theorem create_chunks_2500_witness:
  "length (replicate 2500 (CHR ''a'')) = 2500 \<and>
   map chunk_content
     (projr (the (create_chunks 1000 200 example_uuid4 0 (replicate 2500 (CHR ''a'')) []))) =
     [replicate 1000 (CHR ''a''), replicate 1200 (CHR ''a''), replicate 700 (CHR ''a'')]"
  using create_chunks_2500 [of "replicate 2500 (CHR ''a'')" example_uuid4 0 "[]"]
  by simp

text \<open>
  The example as the specification words it does not hold: on a text of 2500 characters
  the third chunk starts at 1800, not at 1600, and the second chunk has 1200 characters,
  not at most 1000.
\<close>

theorem create_chunks_2500_counterexample:
  "create_chunks 1000 200 example_uuid4 0 (replicate 2500 (CHR ''a'')) [] =
     Some (Inr
       [\<lparr> chunk_id = ''uuid-0'', chunk_content = replicate 1000 (CHR ''a''),
          chunk_metadata = [(''chunk_index'', PInt 0), (''is_first_chunk'', PBool True),
             (''chunk_start'', PInt 0), (''chunk_end'', PInt 1000)] \<rparr>,
        \<lparr> chunk_id = ''uuid-1'', chunk_content = replicate 1200 (CHR ''a''),
          chunk_metadata = [(''chunk_index'', PInt 1), (''is_first_chunk'', PBool False),
             (''chunk_start'', PInt 800), (''chunk_end'', PInt 2000)] \<rparr>,
        \<lparr> chunk_id = ''uuid-2'', chunk_content = replicate 700 (CHR ''a''),
          chunk_metadata = [(''chunk_index'', PInt 2), (''is_first_chunk'', PBool False),
             (''chunk_start'', PInt 1800), (''chunk_end'', PInt 3000)] \<rparr>])"
  by (simp add: create_chunks_def chunk_loop_step chunk_loop_done make_chunk_def
      chunk_start_of_def py_slice_def slice_index_def dict_extend_def example_uuid4_def
      digits.simps)

text \<open>
  Claim C6, as the code has it. An overlap that is not smaller than the chunk size is
  not rejected: for every positive \<open>chunk_size\<close> and every overlap, \<open>create_chunks\<close>
  returns without an error, with as many chunks as the length of the text divided by
  \<open>chunk_size\<close>, rounded up. On the empty text it returns no chunk and no error, whatever
  the two sizes.
\<close>

theorem create_chunks_any_overlap:
  "(0 < chunk_size \<longrightarrow>
      (\<exists>chunks. create_chunks chunk_size chunk_overlap uuid4 draws text md = Some (Inr chunks)
         \<and> int (length chunks) = (int (length text) + chunk_size - 1) div chunk_size))
   \<and> create_chunks chunk_size chunk_overlap uuid4 draws [] md = Some (Inr [])"
proof (intro conjI impI)
  assume pos: "0 < chunk_size"
  have "0 \<le> (int (length text) + chunk_size - 1) div chunk_size"
    using pos by (simp add: pos_imp_zdiv_nonneg_iff)
  then show "\<exists>chunks. create_chunks chunk_size chunk_overlap uuid4 draws text md = Some (Inr chunks)
         \<and> int (length chunks) = (int (length text) + chunk_size - 1) div chunk_size"
    using chunk_loop_closed [OF pos, of 0 0 chunk_overlap uuid4 draws "text" md "[]"]
    by (simp add: create_chunks_def)
next
  show "create_chunks chunk_size chunk_overlap uuid4 draws [] md = Some (Inr [])"
    by (simp add: create_chunks_def chunk_loop_done)
qed

theorem create_chunks_any_overlap_witness:
  "(0::int) < 2 \<and> (2::int) \<le> 3 \<and>
   (\<exists>chunks. create_chunks 2 3 example_uuid4 0 ''abcde'' [] = Some (Inr chunks)
         \<and> int (length chunks) = 3)"
  using create_chunks_any_overlap [of 2 3 example_uuid4 0 "''abcde''" "[]"]
  by simp

text \<open>
  With \<open>chunk_size = 2\<close> and \<open>chunk_overlap = 3\<close> the text \<open>abcde\<close> is split into three
  chunks and nothing is raised. The second chunk is \<open>text[-1:4]\<close>, which is empty.
\<close>

theorem create_chunks_overlap_counterexample:
  "create_chunks 2 3 example_uuid4 0 ''abcde'' [] =
     Some (Inr
       [\<lparr> chunk_id = ''uuid-0'', chunk_content = ''ab'',
          chunk_metadata = [(''chunk_index'', PInt 0), (''is_first_chunk'', PBool True),
             (''chunk_start'', PInt 0), (''chunk_end'', PInt 2)] \<rparr>,
        \<lparr> chunk_id = ''uuid-1'', chunk_content = [],
          chunk_metadata = [(''chunk_index'', PInt 1), (''is_first_chunk'', PBool False),
             (''chunk_start'', PInt (- 1)), (''chunk_end'', PInt 4)] \<rparr>,
        \<lparr> chunk_id = ''uuid-2'', chunk_content = ''bcde'',
          chunk_metadata = [(''chunk_index'', PInt 2), (''is_first_chunk'', PBool False),
             (''chunk_start'', PInt 1), (''chunk_end'', PInt 6)] \<rparr>])"
  by (simp add: create_chunks_def chunk_loop_step chunk_loop_done make_chunk_def
      chunk_start_of_def py_slice_def slice_index_def dict_extend_def example_uuid4_def
      digits.simps)

section \<open>Loading the documents\<close>

lemma find_metadata_Some:
  "find_metadata f ms = Inr (Some m) \<Longrightarrow> m \<in> set ms \<and> map_of m ''filename'' = Some (PStr f)"
  by (induction ms) (auto split: option.splits if_splits)

lemma process_single_document_Some:
  assumes "process_single_document load dir f ms = Some d"
  shows "endswith f ''.pdf'' \<and> document_metadata d \<in> set ms
         \<and> map_of (document_metadata d) ''filename'' = Some (PStr f)
         \<and> load (path_join dir f) = Inr (document_content d)"
  using assms find_metadata_Some [of f ms]
  by (auto simp: process_single_document_def Let_def split: if_splits sum.splits option.splits)

lemma process_single_document_inj:
  assumes "process_single_document load dir f ms = Some d"
      and "process_single_document load dir g ms = Some d"
  shows "f = g"
  using process_single_document_Some [OF assms(1)] process_single_document_Some [OF assms(2)]
  by simp

lemma count_list_map_filter:
  assumes "distinct xs" and "F x = Some d" and "\<And>y. F y = Some d \<Longrightarrow> y = x"
  shows "count_list (List.map_filter F xs) d = (if x \<in> set xs then 1 else 0)"
  using assms(1)
proof (induction xs)
  case Nil
  show ?case by (simp add: List.map_filter_simps)
next
  case (Cons a xs)
  show ?case
  proof (cases "F a")
    case None
    then have "a \<noteq> x" using assms(2) by auto
    then show ?thesis using Cons None by (simp add: List.map_filter_simps)
  next
    case (Some b)
    show ?thesis
    proof (cases "b = d")
      case True
      then have "a = x" using Some assms(3) by simp
      then show ?thesis using Cons Some True by (simp add: List.map_filter_simps)
    next
      case False
      then have "a \<noteq> x" using Some assms(2) by auto
      then show ?thesis using Cons Some False by (simp add: List.map_filter_simps)
    qed
  qed
qed

lemma endswith_iff: "endswith s suf \<longleftrightarrow> (\<exists>stem. s = stem @ suf)"
proof
  assume "endswith s suf"
  then have "s = take (length s - length suf) s @ suf"
    by (metis append_take_drop_id endswith_def)
  then show "\<exists>stem. s = stem @ suf" ..
next
  assume "\<exists>stem. s = stem @ suf"
  then show "endswith s suf" by (auto simp: endswith_def)
qed

text \<open>
  \<open>find_metadata\<close> gives the first catalog entry whose \<open>filename\<close> is the name, when every
  entry before it has a \<open>filename\<close>, and it gives an entry in no other case.
\<close>

lemma find_metadata_first:
  assumes "map_of m ''filename'' = Some (PStr f)"
      and "\<forall>m' \<in> set pre. \<exists>v. map_of m' ''filename'' = Some v \<and> v \<noteq> PStr f"
  shows "find_metadata f (pre @ m # post) = Inr (Some m)"
  using assms by (induction pre) auto

lemma find_metadata_Some_first:
  "find_metadata f ms = Inr (Some m) \<Longrightarrow>
   \<exists>pre post. ms = pre @ m # post \<and> map_of m ''filename'' = Some (PStr f)
     \<and> (\<forall>m' \<in> set pre. \<exists>v. map_of m' ''filename'' = Some v \<and> v \<noteq> PStr f)"
proof (induction ms)
  case Nil
  then show ?case by simp
next
  case (Cons m0 ms)
  from Cons.prems obtain v where v: "map_of m0 ''filename'' = Some v"
    by (auto split: option.splits)
  show ?case
  proof (cases "v = PStr f")
    case True
    with Cons.prems v have "m = m0" by simp
    with True v have "m0 # ms = [] @ m # ms \<and> map_of m ''filename'' = Some (PStr f)
      \<and> (\<forall>m' \<in> set []. \<exists>v. map_of m' ''filename'' = Some v \<and> v \<noteq> PStr f)"
      by simp
    then show ?thesis by blast
  next
    case False
    with Cons.prems v have "find_metadata f ms = Inr (Some m)" by simp
    from Cons.IH [OF this] obtain pre post where p: "ms = pre @ m # post"
      "map_of m ''filename'' = Some (PStr f)"
      "\<forall>m' \<in> set pre. \<exists>v. map_of m' ''filename'' = Some v \<and> v \<noteq> PStr f"
      by blast
    have "m0 # ms = (m0 # pre) @ m # post \<and> map_of m ''filename'' = Some (PStr f)
      \<and> (\<forall>m' \<in> set (m0 # pre). \<exists>v. map_of m' ''filename'' = Some v \<and> v \<noteq> PStr f)"
      using p v False by simp
    then show ?thesis by blast
  qed
qed

lemma process_single_document_loads:
  assumes "f = stem @ ''.pdf''"
      and "map_of m ''filename'' = Some (PStr f)"
      and "\<forall>m' \<in> set pre. \<exists>v. map_of m' ''filename'' = Some v \<and> v \<noteq> PStr f"
      and "load (path_join dir f) = Inr c"
  shows "process_single_document load dir f (pre @ m # post) =
           Some \<lparr> document_content = c, document_metadata = m \<rparr>"
proof -
  have "m \<noteq> []" using assms(2) by auto
  moreover have "endswith f ''.pdf''" using assms(1) endswith_iff by blast
  ultimately show ?thesis
    using assms(4) find_metadata_first [OF assms(2,3), of post]
    by (simp add: process_single_document_def)
qed

lemma process_single_document_Some_first:
  assumes "process_single_document load dir f ms = Some d"
  shows "(\<exists>stem. f = stem @ ''.pdf'') \<and> load (path_join dir f) = Inr (document_content d)
     \<and> (\<exists>pre post. ms = pre @ document_metadata d # post
           \<and> map_of (document_metadata d) ''filename'' = Some (PStr f)
           \<and> (\<forall>m' \<in> set pre. \<exists>v. map_of m' ''filename'' = Some v \<and> v \<noteq> PStr f))"
proof -
  from assms obtain m where m: "find_metadata f ms = Inr (Some m)" "document_metadata d = m"
    and rest: "endswith f ''.pdf''" "load (path_join dir f) = Inr (document_content d)"
    by (auto simp: process_single_document_def Let_def split: if_splits sum.splits option.splits)
  from find_metadata_Some_first [OF m(1)] m(2) rest endswith_iff [of f "''.pdf''"]
  show ?thesis by simp
qed

text \<open>
  Claim C9. When the catalog is read and the directory is listed (its names are
  distinct), \<open>process_documents_parallel\<close> returns a list of documents, whatever the
  extraction does on each file. The documents are exactly the loaded files, each once:
  \<^item> every document returned comes from a file of the directory whose name ends in
    \<open>.pdf\<close>; it carries, whole, the first catalog entry whose \<open>filename\<close> is exactly that
    name, and the text extracted from that file;
  \<^item> a file with no catalog entry of its name yields no document;
  \<^item> a file whose extraction fails yields no document, and the run still returns;
  \<^item> every file of the directory whose name ends in \<open>.pdf\<close>, whose name is the
    \<open>filename\<close> of a catalog entry (every entry before the first such one having a
    \<open>filename\<close>) and whose extraction succeeds has its document, made of that first entry
    and the extracted text, in the result exactly once, whatever happens to the other
    files.
\<close>

theorem process_documents_parallel_loads:
  assumes "distinct names" and "0 < max_workers"
  shows "\<exists>docs. process_documents_parallel (Inr catalog) (Inr names) load pdf_dir max_workers = Inr docs
     \<and> (\<forall>d \<in> set docs. \<exists>f \<in> set names. \<exists>stem pre post.
           f = stem @ ''.pdf''
         \<and> catalog = pre @ document_metadata d # post
         \<and> map_of (document_metadata d) ''filename'' = Some (PStr f)
         \<and> (\<forall>m' \<in> set pre. \<exists>v. map_of m' ''filename'' = Some v \<and> v \<noteq> PStr f)
         \<and> load (path_join pdf_dir f) = Inr (document_content d))
     \<and> (\<forall>f. (\<forall>m \<in> set catalog. map_of m ''filename'' \<noteq> Some (PStr f)) \<longrightarrow>
           (\<forall>d \<in> set docs. map_of (document_metadata d) ''filename'' \<noteq> Some (PStr f)))
     \<and> (\<forall>f \<in> set names. \<forall>e. load (path_join pdf_dir f) = Inl e \<longrightarrow>
           (\<forall>d \<in> set docs. map_of (document_metadata d) ''filename'' \<noteq> Some (PStr f)))
     \<and> (\<forall>f \<in> set names. \<forall>stem pre m post c.
           f = stem @ ''.pdf'' \<and> catalog = pre @ m # post
         \<and> map_of m ''filename'' = Some (PStr f)
         \<and> (\<forall>m' \<in> set pre. \<exists>v. map_of m' ''filename'' = Some v \<and> v \<noteq> PStr f)
         \<and> load (path_join pdf_dir f) = Inr c \<longrightarrow>
           count_list docs \<lparr> document_content = c, document_metadata = m \<rparr> = 1)"
proof -
  let ?F = "\<lambda>f. process_single_document load pdf_dir f catalog"
  let ?fs = "filter (\<lambda>f. endswith f ''.pdf'') names"
  let ?docs = "List.map_filter ?F ?fs"
  have run: "process_documents_parallel (Inr catalog) (Inr names) load pdf_dir max_workers = Inr ?docs"
    using assms(2) by (simp add: process_documents_parallel_def)
  have mem: "\<And>d. d \<in> set ?docs \<Longrightarrow> \<exists>f \<in> set names. ?F f = Some d"
    by (auto simp: List.map_filter_def)
  have a: "\<forall>d \<in> set ?docs. \<exists>f \<in> set names. \<exists>stem pre post.
           f = stem @ ''.pdf''
         \<and> catalog = pre @ document_metadata d # post
         \<and> map_of (document_metadata d) ''filename'' = Some (PStr f)
         \<and> (\<forall>m' \<in> set pre. \<exists>v. map_of m' ''filename'' = Some v \<and> v \<noteq> PStr f)
         \<and> load (path_join pdf_dir f) = Inr (document_content d)"
  proof
    fix d assume "d \<in> set ?docs"
    then obtain f where f: "f \<in> set names" "?F f = Some d" using mem by blast
    from process_single_document_Some_first [OF f(2)] f(1)
    show "\<exists>f \<in> set names. \<exists>stem pre post.
           f = stem @ ''.pdf''
         \<and> catalog = pre @ document_metadata d # post
         \<and> map_of (document_metadata d) ''filename'' = Some (PStr f)
         \<and> (\<forall>m' \<in> set pre. \<exists>v. map_of m' ''filename'' = Some v \<and> v \<noteq> PStr f)
         \<and> load (path_join pdf_dir f) = Inr (document_content d)"
      by blast
  qed
  have b: "\<forall>f. (\<forall>m \<in> set catalog. map_of m ''filename'' \<noteq> Some (PStr f)) \<longrightarrow>
           (\<forall>d \<in> set ?docs. map_of (document_metadata d) ''filename'' \<noteq> Some (PStr f))"
  proof (intro allI impI ballI notI)
    fix f d
    assume none: "\<forall>m \<in> set catalog. map_of m ''filename'' \<noteq> Some (PStr f)"
      and d: "d \<in> set ?docs" and eq: "map_of (document_metadata d) ''filename'' = Some (PStr f)"
    from d obtain g where g: "?F g = Some d" using mem by blast
    from process_single_document_Some [OF g] have "document_metadata d \<in> set catalog" by simp
    with none eq show False by blast
  qed
  have c: "\<forall>f \<in> set names. \<forall>e. load (path_join pdf_dir f) = Inl e \<longrightarrow>
           (\<forall>d \<in> set ?docs. map_of (document_metadata d) ''filename'' \<noteq> Some (PStr f))"
  proof (intro allI impI ballI notI)
    fix f e d
    assume fail: "load (path_join pdf_dir f) = Inl e"
      and d: "d \<in> set ?docs" and eq: "map_of (document_metadata d) ''filename'' = Some (PStr f)"
    from d obtain g where g: "?F g = Some d" using mem by blast
    from process_single_document_Some [OF g] eq
    have "g = f" and "load (path_join pdf_dir g) = Inr (document_content d)" by simp_all
    with fail show False by simp
  qed
  have e: "\<forall>f \<in> set names. \<forall>stem pre m post c.
           f = stem @ ''.pdf'' \<and> catalog = pre @ m # post
         \<and> map_of m ''filename'' = Some (PStr f)
         \<and> (\<forall>m' \<in> set pre. \<exists>v. map_of m' ''filename'' = Some v \<and> v \<noteq> PStr f)
         \<and> load (path_join pdf_dir f) = Inr c \<longrightarrow>
           count_list ?docs \<lparr> document_content = c, document_metadata = m \<rparr> = 1"
  proof (intro ballI allI impI)
    fix f stem pre m post c
    assume f: "f \<in> set names"
      and h: "f = stem @ ''.pdf'' \<and> catalog = pre @ m # post
         \<and> map_of m ''filename'' = Some (PStr f)
         \<and> (\<forall>m' \<in> set pre. \<exists>v. map_of m' ''filename'' = Some v \<and> v \<noteq> PStr f)
         \<and> load (path_join pdf_dir f) = Inr c"
    let ?d = "\<lparr> document_content = c, document_metadata = m \<rparr>"
    from h have h1: "f = stem @ ''.pdf''" and h2: "catalog = pre @ m # post"
      and h3: "map_of m ''filename'' = Some (PStr f)"
      and h4: "\<forall>m' \<in> set pre. \<exists>v. map_of m' ''filename'' = Some v \<and> v \<noteq> PStr f"
      and h5: "load (path_join pdf_dir f) = Inr c"
      by blast+
    have d: "?F f = Some ?d"
      unfolding h2
      by (rule process_single_document_loads
            [of f stem m pre load pdf_dir c post, OF h1 h3 h4 h5])
    have pdf: "endswith f ''.pdf''" using h endswith_iff by blast
    have dist: "distinct ?fs" using assms(1) by simp
    have inj: "\<And>y. ?F y = Some ?d \<Longrightarrow> y = f"
      using process_single_document_inj [OF _ d] by blast
    have "count_list ?docs ?d = (if f \<in> set ?fs then 1 else 0)"
      by (rule count_list_map_filter [of ?fs ?F f ?d, OF dist d inj])
    then show "count_list ?docs ?d = 1" using f pdf by simp
  qed
  show ?thesis
    apply (rule exI [of _ ?docs])
    apply (intro conjI)
        apply (rule run)
       apply (rule a)
      apply (rule b)
     apply (rule c)
    apply (rule e)
    done
qed

text \<open>
  A directory of five names against a catalog of three entries: \<open>a.pdf\<close> and \<open>b.pdf\<close>
  are loaded (the entry of \<open>b.pdf\<close> is the second of the catalog), \<open>c.pdf\<close> has no catalog
  entry, the extraction of \<open>d.pdf\<close> fails and \<open>notes.txt\<close> is not a candidate. The run
  returns, and the document of \<open>b.pdf\<close> is in it once.
\<close>

theorem process_documents_parallel_loads_witness:
  "distinct example_names \<and> (0::int) < 3
   \<and> ''b.pdf'' = ''b'' @ ''.pdf''
   \<and> example_catalog = [example_entry_a] @ example_entry_b # [example_entry_d]
   \<and> map_of example_entry_a ''filename'' = Some (PStr ''a.pdf'')
   \<and> map_of example_entry_b ''filename'' = Some (PStr ''b.pdf'')
   \<and> example_load_pdf_content (path_join ''pdfs'' ''b.pdf'') = Inr ''text of b''
   \<and> example_load_pdf_content (path_join ''pdfs'' ''d.pdf'') =
       Inl (ExternalError ''EOF marker not found'')
   \<and> (\<exists>docs. process_documents_parallel (Inr example_catalog) (Inr example_names)
              example_load_pdf_content ''pdfs'' 3 = Inr docs
      \<and> count_list docs example_document_b = 1)"
proof -
  have h1: "distinct example_names" by (simp add: example_names_def)
  have h2: "(0::int) < 3" by simp
  have p1: "''b.pdf'' = ''b'' @ ''.pdf''" by simp
  have p2: "example_catalog = [example_entry_a] @ example_entry_b # [example_entry_d]"
    by (simp add: example_catalog_def)
  have p0: "map_of example_entry_a ''filename'' = Some (PStr ''a.pdf'')"
    by (simp add: example_entry_a_def)
  have p3: "map_of example_entry_b ''filename'' = Some (PStr ''b.pdf'')"
    by (simp add: example_entry_b_def)
  have p4: "\<forall>m' \<in> set [example_entry_a].
      \<exists>v. map_of m' ''filename'' = Some v \<and> v \<noteq> PStr ''b.pdf''"
    using p0 by simp
  have p5: "example_load_pdf_content (path_join ''pdfs'' ''b.pdf'') = Inr ''text of b''"
    by (simp add: example_load_pdf_content_def path_join_def endswith_def)
  have p6: "example_load_pdf_content (path_join ''pdfs'' ''d.pdf'') =
      Inl (ExternalError ''EOF marker not found'')"
    by (simp add: example_load_pdf_content_def path_join_def endswith_def)
  have b: "''b.pdf'' \<in> set example_names" by (simp add: example_names_def)
  from process_documents_parallel_loads
    [OF h1 h2, of example_catalog example_load_pdf_content "''pdfs''"]
  obtain docs where run: "process_documents_parallel (Inr example_catalog) (Inr example_names)
              example_load_pdf_content ''pdfs'' 3 = Inr docs"
    and once: "\<forall>f \<in> set example_names. \<forall>stem pre m post c.
           f = stem @ ''.pdf'' \<and> example_catalog = pre @ m # post
         \<and> map_of m ''filename'' = Some (PStr f)
         \<and> (\<forall>m' \<in> set pre. \<exists>v. map_of m' ''filename'' = Some v \<and> v \<noteq> PStr f)
         \<and> example_load_pdf_content (path_join ''pdfs'' f) = Inr c \<longrightarrow>
           count_list docs \<lparr> document_content = c, document_metadata = m \<rparr> = 1"
    by blast
  from once b p1 p2 p3 p4 p5
  have "count_list docs \<lparr> document_content = ''text of b'',
      document_metadata = example_entry_b \<rparr> = 1"
    by blast
  then have "count_list docs example_document_b = 1"
    by (simp add: example_document_b_def)
  with run h1 h2 p1 p2 p0 p3 p5 p6 show ?thesis by blast
qed

section \<open>Chunks to vectors\<close>

text \<open>
  Claim C10. For every chunk id and every index, \<open>check_embedding_status\<close> returns a
  truth value and never raises. When the fetch that it performs raises, whatever the
  exception, it answers \<open>False\<close>: the chunk counts as not yet embedded. It answers
  \<open>True\<close>, which is what makes a caller skip the chunk, only when the fetch returned a
  non-empty result; so a failure of the store can cause an embedding to be made again
  and never a chunk to be skipped.
\<close>

theorem check_embedding_status_fail_open:
  "(\<exists>b. check_embedding_status i index = Inr b)
   \<and> (fetch index [i] = Inl e \<longrightarrow> check_embedding_status i index = Inr False)
   \<and> (check_embedding_status i index = Inr True \<longrightarrow>
        (\<exists>vs. fetch index [i] = Inr vs \<and> vs \<noteq> []))"
  by (auto simp: check_embedding_status_def split: sum.splits)

text \<open>
  An index whose fetch raises \<open>connection reset\<close>: the check of the chunk id \<open>uuid-0\<close>
  answers \<open>False\<close>. And an index that holds the id: the check answers \<open>True\<close>, the fetch
  having returned one vector.
\<close>

theorem check_embedding_status_fail_open_witness:
  "fetch failing_index [''uuid-0''] = Inl (ExternalError ''connection reset'')
   \<and> check_embedding_status ''uuid-0'' failing_index = Inr False
   \<and> check_embedding_status ''uuid-0'' full_index = Inr True
   \<and> (\<exists>vs. fetch full_index [''uuid-0''] = Inr vs \<and> vs \<noteq> [])"
proof -
  have f: "fetch failing_index [''uuid-0''] = Inl (ExternalError ''connection reset'')"
    by (simp add: failing_index_def)
  have t: "check_embedding_status ''uuid-0'' full_index = Inr True"
    by (simp add: check_embedding_status_def full_index_def)
  from check_embedding_status_fail_open
         [of "''uuid-0''" failing_index "ExternalError ''connection reset''"] f
  have a: "check_embedding_status ''uuid-0'' failing_index = Inr False" by simp
  from check_embedding_status_fail_open [of "''uuid-0''" full_index] t
  have b: "\<exists>vs. fetch full_index [''uuid-0''] = Inr vs \<and> vs \<noteq> []" by simp
  from f a t b show ?thesis by simp
qed

text \<open>
  The call site of the check gives the chunk id and nothing else, so the first chunk of a
  batch already raises \<open>TypeError\<close>, and so does \<open>process_chunks_to_vectors\<close> on every
  non-empty list of chunks when the batch size is positive.
\<close>

lemma check_batch_Cons:
  "check_batch (chunk # batch) acc =
     Inl (TypeError ''check_embedding_status() missing 1 required positional argument: index'')"
  by (cases acc) simp

lemma batches_Cons:
  "0 < n \<Longrightarrow> batches n (x # xs) = take n (x # xs) # batches n (drop n (x # xs))"
  by (subst batches.simps) simp

lemma process_chunks_to_vectors_Cons:
  assumes "0 < batch_size"
  shows "process_chunks_to_vectors batch_size emb pat (chunk # chunks) index =
     Inl (TypeError ''check_embedding_status() missing 1 required positional argument: index'')"
proof -
  have n: "0 < nat batch_size" using assms by simp
  have t: "take (nat batch_size) (chunk # chunks) = chunk # take (nat batch_size - 1) chunks"
    using n by (simp add: take_Cons')
  have b: "batches (nat batch_size) (chunk # chunks) =
      (chunk # take (nat batch_size - 1) chunks)
        # batches (nat batch_size) (drop (nat batch_size) (chunk # chunks))"
    by (simp only: batches_Cons [OF n] t)
  have "py_batches batch_size (chunk # chunks) = Inr (batches (nat batch_size) (chunk # chunks))"
    using assms by (simp add: py_batches_def)
  then show ?thesis
    by (simp only: process_chunks_to_vectors_def b sum.case batch_loop.simps check_batch_Cons)
qed

lemma bootstrap_Cons:
  assumes "0 < batch_size"
  shows "bootstrap batch_size (Inr index) (Inr (chunk # chunks)) emb pat =
     (Inl (TypeError ''check_embedding_status() missing 1 required positional argument: index''),
      [])"
  by (simp add: bootstrap_def process_chunks_to_vectors_Cons [OF assms])

text \<open>
  Claim C1, at a batch of two new chunks. The claim wants both chunks to become vectors
  of the batch. The run over the two chunks raises \<open>TypeError\<close> at the existence check of
  the first one, so no vector is made at all. And the \<open>try\<close> block of the batch, run on
  the two chunks with their two texts, leaves one vector in \<open>vectors\<close>, that of the last
  chunk: the \<open>append\<close> stands after the loop over the pairs.
\<close>

theorem only_last_vector_kept:
  "process_chunks_to_vectors 3 example_create_embeddings_batch example_processed_at
      [example_chunk_a, example_chunk_b] empty_index =
     Inl (TypeError ''check_embedding_status() missing 1 required positional argument: index'')
   \<and> bootstrap 3 (Inr empty_index) (Inr [example_chunk_a, example_chunk_b])
        example_create_embeddings_batch example_processed_at =
       (Inl (TypeError ''check_embedding_status() missing 1 required positional argument: index''),
        [])
   \<and> embed_batch example_create_embeddings_batch example_processed_at
        [example_chunk_a, example_chunk_b] [ItemStr ''ab'', ItemStr ''bcd''] (None, []) =
       (Some example_vector_b, [example_vector_b])"
  by (simp add: process_chunks_to_vectors_Cons bootstrap_Cons embed_batch_def
      example_create_embeddings_batch_def make_vector_def example_chunk_b_def
      example_vector_b_def example_processed_at_def dict_extend_def)

text \<open>
  Claim C2, at a chunk whose id the index already holds. The check, called with the
  index, answers \<open>True\<close>; the run calls it without the index and raises \<open>TypeError\<close>
  instead of skipping the chunk and returning no vector.
\<close>

theorem stored_chunk_raises:
  "check_embedding_status (chunk_id example_chunk_a) full_index = Inr True
   \<and> process_chunks_to_vectors 3 example_create_embeddings_batch example_processed_at
        [example_chunk_a] full_index =
       Inl (TypeError ''check_embedding_status() missing 1 required positional argument: index'')
   \<and> bootstrap 3 (Inr full_index) (Inr [example_chunk_a])
        example_create_embeddings_batch example_processed_at =
       (Inl (TypeError ''check_embedding_status() missing 1 required positional argument: index''),
        [])"
  by (simp add: process_chunks_to_vectors_Cons bootstrap_Cons check_embedding_status_def
      full_index_def)

text \<open>
  The embedding call is never reached: every run over a non-empty list of chunks ends
  at the existence check of its first chunk, and a run over no chunk has no batch. So
  what \<open>process_chunks_to_vectors\<close> returns does not depend on the embedding service.
\<close>

lemma batches_Nil: "batches n [] = []"
  by (subst batches.simps) simp

lemma process_chunks_to_vectors_embedder_free:
  "process_chunks_to_vectors batch_size emb pat chunks index =
   process_chunks_to_vectors batch_size emb' pat chunks index"
proof (cases "0 < batch_size")
  case True
  show ?thesis
  proof (cases chunks)
    case Nil
    then show ?thesis
      using True by (simp add: process_chunks_to_vectors_def py_batches_def batches_Nil)
  next
    case (Cons c cs)
    then show ?thesis by (simp only: process_chunks_to_vectors_Cons [OF True])
  qed
next
  case False
  then show ?thesis by (simp add: process_chunks_to_vectors_def py_batches_def)
qed

text \<open>
  The \<open>except\<close> clause around the \<open>try\<close> block of a batch (lines 98 to 101): were the
  block entered with an embedding call that raises, the exception would be caught, and
  the variable \<open>vector\<close> and the list \<open>vectors\<close> would be left as they were.
\<close>

lemma embed_batch_except:
  "create_embeddings_batch new_chunks_texts = Inl e \<Longrightarrow>
   embed_batch create_embeddings_batch processed_at new_chunks new_chunks_texts st = st"
  by (cases st) (simp add: embed_batch_def)
section \<open>The cached search\<close>

lemma map_of_append_last:
  "map_of (AList.delete k xs @ [(k, x)]) k = Some x"
  by (simp add: map_add_def delete_conv')

lemma ttl_setitem_stored:
  assumes "ttl_setitem float_add c k v now = (Inr u, c')"
  shows "map_of (links c') k = Some (v, float_add now (ttl c))"
  using assms
  by (auto simp: ttl_setitem_def Let_def map_of_append_last simp del: map_of_append
      split: if_splits)

lemma execute_search_miss_stores:
  assumes miss: "\<not> ttl_contains (cache st) (cache_key_of query top_k) (at_contains timer)"
      and first: "execute_search float_add cfg ext timer elapsed query top_k st =
                    (Inr response, st1)"
  shows "map_of (links (cache st1)) (cache_key_of query top_k) =
           Some (response, float_add (at_setitem timer) (ttl (cache st)))"
proof -
  obtain r0 s0 where ce: "create_embedding ext query st = (r0, s0)"
    by (cases "create_embedding ext query st")
  have s0: "cache s0 = cache st" using ce by (auto simp: create_embedding_def)
  show ?thesis
    using miss first ce s0
    by (auto simp: execute_search_def Let_def
        split: sum.splits prod.splits if_splits dest!: ttl_setitem_stored)
qed

lemma example_first_search:
  "execute_search example_float_add Config example_externals first_timer ''0.41s''
      ''breach of contract'' (Some 3) example_service =
     (Inr example_response, example_service_after)"
  by (simp add: execute_search_def cache_key_of_def str_int_def digits.simps ttl_contains_def
      example_service_def create_embedding_def example_externals_def top_k_or_default_def
      example_match_def format_match_def dict_get_def ttl_setitem_def ttl_expire_def
      example_response_def first_timer_def example_service_after_def example_float_add_def
      Let_def)

lemma example_other_search:
  "execute_search example_float_add Config example_externals other_timer ''0.41s''
      ''negligence'' (Some 3) example_service_after =
     (Inr example_response, example_service_after_two)"
  by (simp add: execute_search_def cache_key_of_def str_int_def digits.simps ttl_contains_def
      example_service_after_def create_embedding_def example_externals_def
      top_k_or_default_def example_match_def format_match_def dict_get_def ttl_setitem_def
      ttl_expire_def example_response_def other_timer_def example_service_after_two_def
      example_float_add_def Let_def)

text \<open>
  A search for another key leaves the entry of a key as it is, when that entry has not
  expired at the time of the write and the cache holds fewer entries than its capacity:
  a hit only moves the other key to the recently used end, a miss that raises writes
  nothing, and a miss that writes drops only expired entries and evicts nothing.
\<close>

lemma map_of_filter_keep:
  "map_of ls k = Some x \<Longrightarrow> P (k, x) \<Longrightarrow> map_of (filter P ls) k = Some x"
  by (induction ls) (auto split: if_splits)

lemma map_of_delete_append_other:
  "k \<noteq> k2 \<Longrightarrow> map_of (AList.delete k2 ls @ [(k2, y)]) k = map_of ls k"
  by (auto simp: map_add_def delete_conv' split: option.splits)

lemma ttl_getitem_keeps:
  assumes "ttl_getitem c k2 now = (r, c')" and "k \<noteq> k2"
  shows "map_of (links c') k = map_of (links c) k"
  using assms
  by (auto simp: ttl_getitem_def Let_def map_of_delete_append_other
      simp del: map_of_append split: option.splits if_splits)

lemma ttl_setitem_keeps:
  assumes wr: "ttl_setitem float_add c k2 v2 now = (r, c')" and other: "k \<noteq> k2"
      and entry: "map_of (links c) k = Some (v, expires)" and live: "now < expires"
      and room: "int (length (links c)) < maxsize c"
  shows "map_of (links c') k = Some (v, expires)"
proof -
  let ?ls = "filter (\<lambda>(k, v, expires). now < expires) (links c)"
  have k: "map_of ?ls k = Some (v, expires)"
    using entry live by (intro map_of_filter_keep) auto
  have le: "length ?ls \<le> length (links c)" by (rule length_filter_le)
  have "int (length ?ls) + 1 - maxsize c \<le> 0" using le room by linarith
  then have d: "nat (int (length ?ls) + 1 - maxsize c) = 0" by simp
  show ?thesis
    using wr other k d
    by (auto simp: ttl_setitem_def ttl_expire_def Let_def map_of_delete_append_other
        simp del: map_of_append split: if_splits)
qed

lemma execute_search_keeps_entry:
  assumes run: "execute_search float_add cfg ext timer elapsed query2 top_k2 st_a = (r, st_b)"
      and other: "key \<noteq> cache_key_of query2 top_k2"
      and entry: "map_of (links (cache st_a)) key = Some (v, expires)"
      and live: "at_setitem timer < expires"
      and room: "int (length (links (cache st_a))) < maxsize (cache st_a)"
  shows "map_of (links (cache st_b)) key = Some (v, expires)"
proof (cases "ttl_contains (cache st_a) (cache_key_of query2 top_k2) (at_contains timer)")
  case True
  obtain r' c' where g: "ttl_getitem (cache st_a) (cache_key_of query2 top_k2)
      (at_getitem timer) = (r', c')"
    by (cases "ttl_getitem (cache st_a) (cache_key_of query2 top_k2) (at_getitem timer)")
  have "cache st_b = c'"
    using True run g by (auto simp: execute_search_def Let_def)
  then show ?thesis
    using entry ttl_getitem_keeps [OF g other] by simp
next
  case False
  obtain r0 s0 where ce: "create_embedding ext query2 st_a = (r0, s0)"
    by (cases "create_embedding ext query2 st_a")
  have s0: "cache s0 = cache st_a" using ce by (auto simp: create_embedding_def)
  show ?thesis
    using False run ce s0 entry
      ttl_setitem_keeps [OF _ other _ live, of float_add "cache st_a" _ _ _ v]
    by (auto simp: execute_search_def Let_def room
        split: sum.splits prod.splits if_splits)
qed

text \<open>
  Claim C7, as the code has it. The cache key is the text of the query, a colon and the
  \<open>top_k\<close> as it was passed, and the cache is looked up before anything else. Take a
  search that missed the cache and returned a response, which it wrote to the cache with
  the expiry \<open>float_add\<close> of the time of the write and the TTL. Take any later state of
  the service in which the entry of that key is the one this search left: other searches
  may have run in between, as long as none evicted or rewrote the entry. A search with
  the same query and \<open>top_k\<close> in that state, whose two cache lookups read the timer below
  that expiry, returns the same response and makes no embedding call and no index query,
  whatever the remote services and the configuration would answer then.
\<close>

theorem cache_round_trip:
  assumes miss: "\<not> ttl_contains (cache st) (cache_key_of query top_k) (at_contains timer)"
      and first: "execute_search float_add cfg ext timer elapsed query top_k st =
                    (Inr response, st1)"
      and kept: "map_of (links (cache st')) (cache_key_of query top_k) =
                   map_of (links (cache st1)) (cache_key_of query top_k)"
      and fresh: "at_contains timer' < float_add (at_setitem timer) (ttl (cache st))"
                 "at_getitem timer' < float_add (at_setitem timer) (ttl (cache st))"
  shows "\<exists>st2. execute_search float_add' cfg' ext' timer' elapsed' query top_k st' =
                  (Inr response, st2)
           \<and> embed_calls st2 = embed_calls st' \<and> query_calls st2 = query_calls st'"
proof -
  have stored: "map_of (links (cache st')) (cache_key_of query top_k) =
           Some (response, float_add (at_setitem timer) (ttl (cache st)))"
    using execute_search_miss_stores [OF miss first] kept by simp
  have hit: "ttl_contains (cache st') (cache_key_of query top_k) (at_contains timer')"
    using stored fresh(1) by (simp add: ttl_contains_def)
  have get: "fst (ttl_getitem (cache st') (cache_key_of query top_k) (at_getitem timer')) =
      Inr response"
    using stored fresh(2) by (simp add: ttl_getitem_def Let_def)
  show ?thesis
    using hit get
    by (auto simp: execute_search_def Let_def split: prod.splits)
qed

text \<open>
  A first search for \<open>breach of contract\<close> at timer reading 10, written to the cache at
  11 with a TTL of 60; a search for \<open>negligence\<close> at reading 20, which leaves the first
  entry in place; and the first search again at reading 50, with every remote service
  unreachable: the stored response comes back and both call counters stay at 2.
\<close>

theorem cache_round_trip_witness:
  "\<not> ttl_contains (cache example_service) (cache_key_of ''breach of contract'' (Some 3))
        (at_contains first_timer)
   \<and> execute_search example_float_add Config example_externals first_timer ''0.41s''
        ''breach of contract'' (Some 3) example_service =
       (Inr example_response, example_service_after)
   \<and> execute_search example_float_add Config example_externals other_timer ''0.41s''
        ''negligence'' (Some 3) example_service_after =
       (Inr example_response, example_service_after_two)
   \<and> map_of (links (cache example_service_after_two))
        (cache_key_of ''breach of contract'' (Some 3)) =
       map_of (links (cache example_service_after))
        (cache_key_of ''breach of contract'' (Some 3))
   \<and> at_contains second_timer <
       example_float_add (at_setitem first_timer) (ttl (cache example_service))
   \<and> at_getitem second_timer <
       example_float_add (at_setitem first_timer) (ttl (cache example_service))
   \<and> (\<exists>st2. execute_search example_float_add [] unreachable_externals second_timer ''0.00s''
               ''breach of contract'' (Some 3) example_service_after_two =
               (Inr example_response, st2)
         \<and> embed_calls st2 = 2 \<and> query_calls st2 = 2)"
proof -
  have miss: "\<not> ttl_contains (cache example_service)
      (cache_key_of ''breach of contract'' (Some 3)) (at_contains first_timer)"
    by (simp add: ttl_contains_def example_service_def)
  have kept: "map_of (links (cache example_service_after_two))
        (cache_key_of ''breach of contract'' (Some 3)) =
       map_of (links (cache example_service_after))
        (cache_key_of ''breach of contract'' (Some 3))"
    by (simp add: example_service_after_two_def example_service_after_def cache_key_of_def
        str_int_def digits.simps)
  have f1: "at_contains second_timer <
      example_float_add (at_setitem first_timer) (ttl (cache example_service))"
    by (simp add: second_timer_def first_timer_def example_service_def example_float_add_def)
  have f2: "at_getitem second_timer <
      example_float_add (at_setitem first_timer) (ttl (cache example_service))"
    by (simp add: second_timer_def first_timer_def example_service_def example_float_add_def)
  have c: "embed_calls example_service_after_two = 2
      \<and> query_calls example_service_after_two = 2"
    by (simp add: example_service_after_two_def)
  from cache_round_trip [OF miss example_first_search kept f1 f2,
      of example_float_add "[]" unreachable_externals "''0.00s''"]
  have hit: "\<exists>st2. execute_search example_float_add [] unreachable_externals second_timer
               ''0.00s'' ''breach of contract'' (Some 3) example_service_after_two =
               (Inr example_response, st2)
         \<and> embed_calls st2 = 2 \<and> query_calls st2 = 2"
    using c by simp
  show ?thesis
    apply (intro conjI)
          apply (rule miss)
         apply (rule example_first_search)
        apply (rule example_other_search)
       apply (rule kept)
      apply (rule f1)
     apply (rule f2)
    apply (rule hit)
    done
qed

text \<open>
  Five searches at timer readings 1 to 5, under the configuration of the repository: a
  cache of three entries and a TTL of 60. Each is given its \<open>top_k\<close>, and each returns a
  response. The fifth is the first one again, 4 time units later. The three searches in
  between filled the cache and the fourth write evicted the entry of the first, so the
  fifth search makes an embedding call and an index query of its own. And the key of a
  search whose \<open>top_k\<close> is omitted ends in \<open>None\<close>, not in a default.
\<close>

theorem cache_eviction_counterexample:
  "run_searches example_float_add Config example_externals ''0.41s'' four_searches
      example_service =
     ([Inr example_response, Inr example_response, Inr example_response, Inr example_response],
      example_service_full)
   \<and> hd four_searches = (1, ''breach of contract'', Some 3)
   \<and> at_contains fifth_timer < example_float_add 1 (ttl (cache example_service))
   \<and> execute_search example_float_add Config example_externals fifth_timer ''0.41s''
        ''breach of contract'' (Some 3) example_service_full =
       (Inr example_response, example_service_evicted)
   \<and> embed_calls example_service_full = 4 \<and> embed_calls example_service_evicted = 5
   \<and> query_calls example_service_full = 4 \<and> query_calls example_service_evicted = 5
   \<and> cache_key_of ''breach of contract'' None = ''breach of contract:None''"
  by (simp add: four_searches_def execute_search_def cache_key_of_def str_int_def digits.simps
      ttl_contains_def example_service_def create_embedding_def example_externals_def
      top_k_or_default_def example_match_def format_match_def dict_get_def ttl_setitem_def
      ttl_expire_def example_response_def example_service_full_def fifth_timer_def
      example_service_evicted_def example_float_add_def Let_def)

section \<open>The health check\<close>

text \<open>
  Claim C8, as the code has it. \<open>health_check\<close> never raises. When the embedding call
  raises, or the index statistics call raises, it answers \<open>unhealthy\<close> with the text of
  the exception. When the embedding call returns no embedding (\<open>None\<close> or an empty one),
  it answers \<open>unhealthy\<close> with \<open>Embedding creation failed\<close>, though nothing was raised.
  Otherwise it answers \<open>healthy\<close> with the number of unexpired cache entries and the free
  slots of the semaphore.
\<close>

theorem health_check_answers:
  "(\<exists>d. fst (health_check ext now st) = Inr d)
   \<and> (\<forall>e. openai_embed ext (embed_calls st) ''test'' = Inl e \<longrightarrow>
         fst (health_check ext now st) =
           Inr [(''status'', PStr ''unhealthy''), (''error'', PStr (str e))])
   \<and> (\<forall>emb. openai_embed ext (embed_calls st) ''test'' = Inr emb
          \<and> (emb = None \<or> emb = Some []) \<longrightarrow>
         fst (health_check ext now st) =
           Inr [(''status'', PStr ''unhealthy''),
                (''error'', PStr ''Embedding creation failed'')])
   \<and> (\<forall>v e. openai_embed ext (embed_calls st) ''test'' = Inr (Some v) \<and> v \<noteq> []
          \<and> describe_index_stats ext = Inl e \<longrightarrow>
         fst (health_check ext now st) =
           Inr [(''status'', PStr ''unhealthy''), (''error'', PStr (str e))])
   \<and> (\<forall>v s. openai_embed ext (embed_calls st) ''test'' = Inr (Some v) \<and> v \<noteq> []
          \<and> describe_index_stats ext = Inr s \<longrightarrow>
         fst (health_check ext now st) =
           Inr [(''status'', PStr ''healthy''),
                (''cache_size'', PInt (int (ttl_len (cache st) now))),
                (''active_connections'', PInt (semaphore_value st))])"
  by (auto simp: health_check_def create_embedding_def split: sum.splits)

theorem health_check_answers_witness:
  "openai_embed unreachable_externals (embed_calls example_service) ''test'' =
     Inl (ExternalError ''connection refused'')
   \<and> fst (health_check unreachable_externals 100 example_service) =
     Inr [(''status'', PStr ''unhealthy''), (''error'', PStr ''connection refused'')]
   \<and> fst (health_check example_externals 100 example_service) =
     Inr [(''status'', PStr ''healthy''), (''cache_size'', PInt 0),
          (''active_connections'', PInt 5)]"
  using health_check_answers [of unreachable_externals 100 example_service]
        health_check_answers [of example_externals 100 example_service]
  by (simp add: unreachable_externals_def example_externals_def example_service_def ttl_len_def)

text \<open>
  Both remote services answer and nothing is raised, but the embedding that comes back
  is empty: the answer is \<open>unhealthy\<close>.
\<close>

theorem health_check_counterexample:
  "openai_embed empty_embedding_externals 0 ''test'' = Inr (Some [])
   \<and> describe_index_stats empty_embedding_externals = Inr ()
   \<and> health_check empty_embedding_externals 100 example_service =
     (Inr [(''status'', PStr ''unhealthy''), (''error'', PStr ''Embedding creation failed'')],
      example_service\<lparr>embed_calls := 1\<rparr>)"
  by (simp add: health_check_def create_embedding_def empty_embedding_externals_def
      example_service_def)

section \<open>The search route\<close>

lemma SearchService_getattr_search:
  "SearchService_getattr ''search'' =
     Inl (AttributeError ''SearchService object has no attribute search'')"
  by (simp add: SearchService_getattr_def)

text \<open>
  Every request with a non-empty query, once the service object is there, gets the same
  answer: the lookup of the attribute \<open>search\<close> raises, the handler catches the exception
  and answers with status 500. No method of the service is called, and \<open>top_k\<close> is not
  read.
\<close>

lemma search_route_no_search:
  assumes "truthy (dict_get body ''query'' PNone)"
  shows "search_route (Inr body) (Inr u) call st =
           ((JsonError ''SearchService object has no attribute search'', 500), st)"
  using assms by (simp add: search_route_def SearchService_getattr_search)

lemma search_route_never_200:
  "snd (fst (search_route request_json new_service call st)) \<noteq> 200"
  by (simp add: search_route_def SearchService_getattr_search Let_def
      split: sum.splits)

text \<open>
  Claim C4, at a request with the query \<open>breach of contract\<close> and a \<open>top_k\<close> of 3. The
  claim wants the search operation of the service invoked and a search response
  returned. The class defines \<open>search_with_timeout\<close> and \<open>_execute_search\<close> and no method
  \<open>search\<close>, which is the name the handler calls: the answer is an error body with status
  500, and the method that the handler is given is never called (the state, which counts
  the calls, stays 0).
\<close>

theorem search_route_attribute_error:
  "truthy (dict_get example_request ''query'' PNone)
   \<and> SearchService_getattr ''search_with_timeout'' = Inr Search_with_timeout
   \<and> SearchService_getattr ''search'' =
       Inl (AttributeError ''SearchService object has no attribute search'')
   \<and> search_route (Inr example_request) (Inr ()) example_call 0 =
       ((JsonError ''SearchService object has no attribute search'', 500), 0)"
  by (simp add: search_route_def SearchService_getattr_def example_request_def dict_get_def)

end
